theory Spec2Isabelle
  imports Main "HOL-Library.Word"
begin

section \<open>The main window of cabana (tools/cabana/mainwin.cc)\<close>

text \<open>
  The main window is a set of handlers (Qt slots) that run one at a time on the GUI thread.
  Each handler is a function from the window's state to the new state. The state holds the
  fields the handlers read and write: the settings object's recent files and last directory,
  the undo stack singleton, the DBC manager's list of open files, the menus the handlers
  rebuild, the progress bar. What a handler asks of a collaborator that lives outside this
  file (a dialog, the status bar, a DBC file object, the DBC manager) is appended to a trace
  of effects, in program order.
\<close>

type_synonym uint8_t = "8 word"
type_synonym uint64_t = "64 word"
type_synonym SourceSet = "uint8_t set"

subsection \<open>Collaborators\<close>

text \<open>
  A DBC file object as this file sees it: the public field \<open>filename\<close>, and the text it
  holds, on which the results of its methods depend.
\<close>

record DBCFile =
  filename :: string
  contents :: string

type_synonym dbc_files_t = "(SourceSet \<times> DBCFile) list"

datatype file_method = Save | SaveAs string | AutoSave | CleanupAutoSaveFile

datatype open_args =
    FromFile SourceSet string
  | FromText SourceSet string string

datatype StandardButton = Ok | Cancel | Yes | No

text \<open>A value stored in the fingerprint table; \<open>toString\<close> of a value that is not a string is empty.\<close>

datatype json = JString string | JNonString

definition toString :: "json option \<Rightarrow> string" where
  "toString v = (case v of Some (JString s) \<Rightarrow> s | _ \<Rightarrow> [])"

datatype dock_title =
    RouteName string
  | RouteAndFingerprint string string

datatype effect =
    StatusMessage string
  | QuestionBox string string
  | InformationBox string string
  | WarningBox string string string
  | OpenFileDialog string
  | SaveFileDialog string
  | RouteDialog
  | FileExistsQuery string
  | DbcCloseAll
  | DbcOpen open_args
  | FileCall file_method DBCFile
  | CenterClear
  | ChartsRemoveAll
  | SettingsSave

text \<open>
  Everything the handlers use that is declared outside this file is a field of the
  environment: the constants of the headers, Qt's path functions, the file system, the
  DBC manager's and the DBC file's methods, the stream, the clipboard, and the user, who
  answers the \<open>n\<close>-th dialog of a run. Of the DBC manager, \<open>mgr_open\<close> and
  \<open>mgr_closeAll\<close> say what a call does to the list of open files, and
  \<open>mgr_open_emits\<close> and \<open>mgr_closeAll_emits\<close> whether the call emits the signal
  \<open>DBCFileChanged\<close>.
\<close>

record env =
  MAX_RECENT_FILES :: nat
  AUTO_SAVE_EXTENSION :: string
  OPENDBC_FILE_PATH :: string
  SOURCE_ALL :: SourceSet
  absolutePath :: "string \<Rightarrow> string"
  fileName :: "string \<Rightarrow> string"
  cleanPath :: "string \<Rightarrow> string"
  file_exists :: "string \<Rightarrow> bool"
  mgr_open :: "open_args \<Rightarrow> dbc_files_t \<Rightarrow> bool \<times> string \<times> dbc_files_t"
  mgr_closeAll :: "dbc_files_t \<Rightarrow> dbc_files_t"
  mgr_open_emits :: "open_args \<Rightarrow> dbc_files_t \<Rightarrow> bool"
  mgr_closeAll_emits :: "dbc_files_t \<Rightarrow> bool"
  msgCount :: "dbc_files_t \<Rightarrow> int"
  dbcCount :: "dbc_files_t \<Rightarrow> int"
  findDBCFile :: "dbc_files_t \<Rightarrow> uint8_t \<Rightarrow> (SourceSet \<times> DBCFile) option"
  file_call :: "file_method \<Rightarrow> DBCFile \<Rightarrow> DBCFile"
  dbc_name :: "DBCFile \<Rightarrow> string"
  question :: "nat \<Rightarrow> StandardButton"
  getFileName :: "nat \<Rightarrow> string"
  route_dialog :: "nat \<Rightarrow> bool \<times> bool"
  clipboard_text :: string
  carFingerprint :: string
  liveStreaming :: bool
  routeName :: string

subsection \<open>The undo stack\<close>

text \<open>
  \<open>UndoStack::instance()\<close> is a \<open>QUndoStack\<close>: the texts of its commands, the index of
  the current command and the clean index (\<open>-1\<close> when there is none). No macro is
  composed while a handler of this file runs.
\<close>

record QUndoStack =
  us_commands :: "string list"
  us_index :: int
  us_clean_index :: int

definition us_count :: "QUndoStack \<Rightarrow> int" where
  "us_count u = int (length (us_commands u))"

definition us_text :: "QUndoStack \<Rightarrow> int \<Rightarrow> string" where
  "us_text u idx =
     (if idx < 0 \<or> us_count u \<le> idx then [] else us_commands u ! nat idx)"

definition isClean :: "QUndoStack \<Rightarrow> bool" where
  "isClean u = (us_clean_index u = us_index u)"

subsection \<open>The window\<close>

record recent_action =
  ra_text :: string
  ra_data :: string
  ra_visible :: bool

record bus_action =
  ba_text :: string
  ba_data :: uint8_t

record MainWindow =
  recent_files :: "string list"
  last_dir :: string
  recent_files_acts :: "recent_action list"
  open_recent_enabled :: bool
  undo_stack :: QUndoStack
  prev_undostack_index :: int
  prev_undostack_count :: int
  window_modified :: bool
  dbc_files :: dbc_files_t
  sources :: SourceSet
  save_dbc_text :: string
  save_dbc_as_enabled :: bool
  copy_dbc_enabled :: bool
  open_dbc_for_source_enabled :: bool
  open_dbc_for_source :: "bus_action list"
  progress_visible :: bool
  progress_args :: "(uint64_t \<times> uint64_t) option"
  video_dock_title :: dock_title
  fingerprint_to_dbc :: "string \<Rightarrow> json option"
  window_open :: bool
  asked :: nat
  trace :: "effect list"

definition emit_effect :: "effect \<Rightarrow> MainWindow \<Rightarrow> MainWindow" where
  "emit_effect x w = w\<lparr>trace := trace w @ [x]\<rparr>"

definition showMessage :: "string \<Rightarrow> MainWindow \<Rightarrow> MainWindow" where
  "showMessage msg w = emit_effect (StatusMessage msg) w"

text \<open>Decimal digits, as \<open>QString::arg\<close> prints an integer.\<close>

fun decimal :: "nat \<Rightarrow> string" where
  "decimal n =
     (if n < 10 then [char_of (48 + n)]
      else decimal (n div 10) @ [char_of (48 + n mod 10)])"

declare decimal.simps [simp del]

subsection \<open>Autosave and the undo stack's signals\<close>

text \<open>\<open>autoSave\<close>: the loop over the open files, then the guard on the clean state.\<close>

fun autoSave_files :: "env \<Rightarrow> dbc_files_t \<Rightarrow> dbc_files_t \<times> effect list" where
  "autoSave_files e [] = ([], [])"
| "autoSave_files e ((s, f) # rest) =
     (let (rest', fx) = autoSave_files e rest
      in if filename f \<noteq> []
         then ((s, file_call e AutoSave f) # rest', FileCall AutoSave f # fx)
         else ((s, f) # rest', fx))"

definition autoSave :: "env \<Rightarrow> MainWindow \<Rightarrow> MainWindow" where
  "autoSave e w =
     (if \<not> isClean (undo_stack w)
      then (let (fs, fx) = autoSave_files e (dbc_files w)
            in w\<lparr>dbc_files := fs, trace := trace w @ fx\<rparr>)
      else w)"

definition undoStackIndexChanged :: "env \<Rightarrow> int \<Rightarrow> MainWindow \<Rightarrow> MainWindow" where
  "undoStackIndexChanged e index w =
     (let u = undo_stack w;
          count = us_count u;
          w1 = (if 0 \<le> count
                then (let command_text =
                            (if index = count
                             then (if count = prev_undostack_count w then ''Redo '' else [])
                                  @ us_text u (index - 1)
                             else if index < prev_undostack_index w
                             then ''Undo '' @ us_text u index
                             else if prev_undostack_index w < index
                             then ''Redo '' @ us_text u (index - 1)
                             else [])
                      in showMessage command_text w)
                else w);
          w2 = w1\<lparr>prev_undostack_index := index, prev_undostack_count := count\<rparr>
      in autoSave e w2)"

definition undoStackCleanChanged :: "bool \<Rightarrow> MainWindow \<Rightarrow> MainWindow" where
  "undoStackCleanChanged clean w =
     (let w1 = (if clean
                then w\<lparr>prev_undostack_index := 0, prev_undostack_count := 0\<rparr>
                else w)
      in w1\<lparr>window_modified := \<not> clean\<rparr>)"

text \<open>
  The stack's own operations, as Qt documents them, each followed by the slots this file
  connects to the signals it emits (\<open>cleanChanged\<close>, \<open>indexChanged\<close>): the connections
  are direct, so the slot has run when the call returns.
\<close>

definition undo_resetClean :: "MainWindow \<Rightarrow> MainWindow" where
  "undo_resetClean w =
     (let u = undo_stack w;
          was_clean = isClean u;
          w1 = w\<lparr>undo_stack := u\<lparr>us_clean_index := - 1\<rparr>\<rparr>
      in if was_clean then undoStackCleanChanged False w1 else w1)"

definition undo_setClean :: "MainWindow \<Rightarrow> MainWindow" where
  "undo_setClean w =
     (let u = undo_stack w;
          was_clean = isClean u;
          w1 = w\<lparr>undo_stack := u\<lparr>us_clean_index := us_index u\<rparr>\<rparr>
      in if \<not> was_clean then undoStackCleanChanged True w1 else w1)"

definition undo_clear :: "env \<Rightarrow> MainWindow \<Rightarrow> MainWindow" where
  "undo_clear e w =
     (let u = undo_stack w
      in if us_commands u = [] then w
         else (let was_clean = isClean u;
                   w1 = w\<lparr>undo_stack := u\<lparr>us_commands := [], us_index := 0, us_clean_index := 0\<rparr>\<rparr>;
                   w2 = undoStackIndexChanged e 0 w1
               in if \<not> was_clean then undoStackCleanChanged True w2 else w2))"

subsection \<open>Download progress\<close>

text \<open>
  The bar's value is \<open>(cur / (double)total) * 100\<close>, a floating point computation, and
  its format holds the formatted size of \<open>total\<close>; both are kept as the two arguments.
\<close>

definition updateDownloadProgress :: "uint64_t \<Rightarrow> uint64_t \<Rightarrow> bool \<Rightarrow> MainWindow \<Rightarrow> MainWindow" where
  "updateDownloadProgress cur total' success w =
     (if success \<and> cur < total'
      then w\<lparr>progress_args := Some (cur, total'), progress_visible := True\<rparr>
      else w\<lparr>progress_visible := False\<rparr>)"

subsection \<open>Recent files\<close>

function trim_recent :: "nat \<Rightarrow> string list \<Rightarrow> string list" where
  "trim_recent m xs = (if m < length xs then trim_recent m (butlast xs) else xs)"
  by pat_completeness auto
termination
  by (relation "measure (\<lambda>(m, xs). length xs)") auto

declare trim_recent.simps [simp del]

definition updateRecentFileActions :: "env \<Rightarrow> MainWindow \<Rightarrow> MainWindow" where
  "updateRecentFileActions e w =
     (let num_recent_files = min (length (recent_files w)) (MAX_RECENT_FILES e);
          shown = map (\<lambda>i. \<lparr>ra_text = ''&'' @ decimal (i + 1) @ '' '' @ fileName e (recent_files w ! i),
                             ra_data = recent_files w ! i,
                             ra_visible = True\<rparr>)
                      [0..<num_recent_files];
          hidden = map (\<lambda>a. a\<lparr>ra_visible := False\<rparr>)
                       (drop num_recent_files (take (MAX_RECENT_FILES e) (recent_files_acts w)))
      in w\<lparr>recent_files_acts := shown @ hidden,
            open_recent_enabled := (0 < num_recent_files)\<rparr>)"

definition updateRecentFiles :: "env \<Rightarrow> string \<Rightarrow> MainWindow \<Rightarrow> MainWindow" where
  "updateRecentFiles e fn w =
     (let w1 = w\<lparr>recent_files := trim_recent (MAX_RECENT_FILES e) (fn # removeAll fn (recent_files w))\<rparr>;
          w2 = w1\<lparr>last_dir := absolutePath e fn\<rparr>
      in updateRecentFileActions e w2)"

subsection \<open>The load and save menus\<close>

definition bus_action_for :: "env \<Rightarrow> dbc_files_t \<Rightarrow> uint8_t \<Rightarrow> bus_action" where
  "bus_action_for e fs source =
     (let d = findDBCFile e fs source;
          name = (case d of
                    None \<Rightarrow> ''no DBC''
                  | Some p \<Rightarrow> if dbc_name e (snd p) \<noteq> [] then dbc_name e (snd p) else ''untitled'')
      in \<lparr>ba_text = ''Bus '' @ decimal (unat source) @ '' (current: '' @ name @ '')'',
          ba_data = source\<rparr>)"

definition updateLoadSaveMenus :: "env \<Rightarrow> MainWindow \<Rightarrow> MainWindow" where
  "updateLoadSaveMenus e w =
     (let n = dbcCount e (dbc_files w);
          sources_sorted = sorted_list_of_set (sources w)
      in w\<lparr>save_dbc_text := (if 1 < n then ''Save '' @ decimal (nat n) @ '' DBCs...'' else ''Save DBC...''),
            save_dbc_as_enabled := (n = 1),
            copy_dbc_enabled := (n = 1),
            open_dbc_for_source_enabled := (sources w \<noteq> {}),
            open_dbc_for_source :=
              map (bus_action_for e (dbc_files w)) (filter (\<lambda>source. \<not> 64 \<le> source) sources_sorted)\<rparr>)"

text \<open>
  The slots of the stream's \<open>sourcesUpdated\<close> and of the DBC manager's \<open>DBCFileChanged\<close>.
\<close>

definition updateSources :: "env \<Rightarrow> SourceSet \<Rightarrow> MainWindow \<Rightarrow> MainWindow" where
  "updateSources e s w = updateLoadSaveMenus e (w\<lparr>sources := s\<rparr>)"

definition DBCFileChanged :: "env \<Rightarrow> MainWindow \<Rightarrow> MainWindow" where
  "DBCFileChanged e w = updateLoadSaveMenus e (undo_clear e w)"

subsection \<open>Calls on the DBC manager\<close>

text \<open>
  \<open>dbc()->closeAll()\<close> and \<open>dbc()->open(...)\<close>. The constructor connects the manager's
  signal \<open>DBCFileChanged\<close> to the slot of the same name, directly: when a call emits the
  signal, the slot has run, on the files as the call leaves them, before the call returns.
\<close>

definition dbc_closeAll :: "env \<Rightarrow> MainWindow \<Rightarrow> MainWindow" where
  "dbc_closeAll e w =
     (let w1 = emit_effect DbcCloseAll (w\<lparr>dbc_files := mgr_closeAll e (dbc_files w)\<rparr>)
      in if mgr_closeAll_emits e (dbc_files w) then DBCFileChanged e w1 else w1)"

definition dbc_open :: "env \<Rightarrow> open_args \<Rightarrow> MainWindow \<Rightarrow> bool \<times> string \<times> MainWindow" where
  "dbc_open e a w =
     (let (ret, error, fs) = mgr_open e a (dbc_files w);
          w1 = emit_effect (DbcOpen a) (w\<lparr>dbc_files := fs\<rparr>)
      in (ret, error, if mgr_open_emits e a (dbc_files w) then DBCFileChanged e w1 else w1))"

subsection \<open>Saving\<close>

text \<open>
  The loop of \<open>saveFile\<close> over the open files. A file with a name is saved under it; for
  a file without one the user is asked, and an empty answer skips the file.
\<close>

fun saveFile_files :: "env \<Rightarrow> dbc_files_t \<Rightarrow> MainWindow \<Rightarrow> dbc_files_t \<times> MainWindow" where
  "saveFile_files e [] w = ([], w)"
| "saveFile_files e ((s, dbc_file) # rest) w =
     (if filename dbc_file \<noteq> []
      then (let f1 = file_call e Save dbc_file;
                w1 = updateRecentFiles e (filename f1) (emit_effect (FileCall Save dbc_file) w);
                (rest', w2) = saveFile_files e rest w1
            in ((s, f1) # rest', w2))
      else (let fn = getFileName e (asked w);
                w1 = emit_effect (SaveFileDialog (cleanPath e (last_dir w @ ''/untitled.dbc'')))
                       (w\<lparr>asked := asked w + 1\<rparr>)
            in if fn \<noteq> []
               then (let f1 = file_call e (SaveAs fn) dbc_file;
                         w2 = updateRecentFiles e fn (emit_effect (FileCall (SaveAs fn) dbc_file) w1);
                         (rest', w3) = saveFile_files e rest w2
                     in ((s, f1) # rest', w3))
               else (let (rest', w3) = saveFile_files e rest w1
                     in ((s, dbc_file) # rest', w3))))"

definition saveFile :: "env \<Rightarrow> MainWindow \<Rightarrow> MainWindow" where
  "saveFile e w =
     (let (fs, w1) = saveFile_files e (dbc_files w) w;
          w2 = undo_setClean (w1\<lparr>dbc_files := fs\<rparr>)
      in showMessage ''File saved'' w2)"

definition save :: "env \<Rightarrow> MainWindow \<Rightarrow> MainWindow" where
  "save e w = saveFile e w"

lemma undo_stack_undoStackCleanChanged [simp]:
  "undo_stack (undoStackCleanChanged c w) = undo_stack w"
  by (simp add: undoStackCleanChanged_def Let_def)

lemma isClean_undo_setClean [simp]: "isClean (undo_stack (undo_setClean w))"
  by (simp add: undo_setClean_def Let_def isClean_def)

lemma isClean_saveFile [simp]: "isClean (undo_stack (saveFile e w))"
  by (simp add: saveFile_def showMessage_def emit_effect_def Let_def split: prod.split)

lemma isClean_save [simp]: "isClean (undo_stack (save e w))"
  by (simp add: save_def)

subsection \<open>The reminder to save\<close>

text \<open>
  The loop of \<open>remindSaveChanges\<close>, with its local \<open>discard_changes\<close> as an argument. It
  is a total function: a round that saves leaves the stack clean, a round that does not
  sets \<open>discard_changes\<close>.
\<close>

definition unsaved_prompt :: "MainWindow \<Rightarrow> MainWindow" where
  "unsaved_prompt w =
     emit_effect
       (QuestionBox ''Unsaved Changes''
          ''You have unsaved changes. Press ok to save them, cancel to discard.'')
       (w\<lparr>asked := asked w + 1\<rparr>)"

function remindSaveChanges_loop :: "env \<Rightarrow> bool \<Rightarrow> MainWindow \<Rightarrow> MainWindow" where
  "remindSaveChanges_loop e discard_changes w =
     (if \<not> isClean (undo_stack w) \<and> \<not> discard_changes
      then (let ret = question e (asked w);
                w1 = unsaved_prompt w
            in if ret = Ok
               then remindSaveChanges_loop e discard_changes (save e w1)
               else remindSaveChanges_loop e True w1)
      else w)"
  by pat_completeness auto
termination
  by (relation "measure (\<lambda>(e, d, w). if isClean (undo_stack w) \<or> d then 0 else 1)") auto

declare remindSaveChanges_loop.simps [simp del]

definition remindSaveChanges :: "env \<Rightarrow> MainWindow \<Rightarrow> MainWindow" where
  "remindSaveChanges e w = undo_clear e (remindSaveChanges_loop e False w)"

subsection \<open>Loading\<close>

definition newFile :: "env \<Rightarrow> MainWindow \<Rightarrow> MainWindow" where
  "newFile e w =
     (let w1 = remindSaveChanges e w;
          w2 = dbc_closeAll e w1;
          (ret, error, w3) = dbc_open e (FromText (SOURCE_ALL e) [] []) w2
      in updateLoadSaveMenus e w3)"

text \<open>
  \<open>loadFile\<close> in its steps: the choice of the file to open (the prompt for an
  autosaved copy), the calls on the manager up to the return of \<open>dbc()->open\<close>, and the
  answer to its result.
\<close>

definition loadFile_choose :: "env \<Rightarrow> string \<Rightarrow> MainWindow \<Rightarrow> string \<times> MainWindow" where
  "loadFile_choose e fn w =
     (let w1 = emit_effect (FileExistsQuery (fn @ AUTO_SAVE_EXTENSION e)) w
      in if file_exists e (fn @ AUTO_SAVE_EXTENSION e)
         then (let ret = question e (asked w1);
                   w2 = emit_effect
                          (QuestionBox ''Auto saved DBC found''
                             ''Auto saved DBC file from previous session found. Do you want to load it instead?'')
                          (w1\<lparr>asked := asked w1 + 1\<rparr>)
               in if ret = Yes
                  then (fn @ AUTO_SAVE_EXTENSION e, undo_resetClean w2)
                  else (fn, w2))
         else (fn, w1))"

definition loadFile_open ::
  "env \<Rightarrow> string \<Rightarrow> SourceSet \<Rightarrow> bool \<Rightarrow> MainWindow \<Rightarrow> bool \<times> string \<times> MainWindow" where
  "loadFile_open e fn s close_all w =
     (let (dbc_fn, w1) = loadFile_choose e fn w;
          w2 = (if close_all then dbc_closeAll e w1 else w1)
      in dbc_open e (FromFile s dbc_fn) w2)"

definition loadFile :: "env \<Rightarrow> string \<Rightarrow> SourceSet \<Rightarrow> bool \<Rightarrow> MainWindow \<Rightarrow> MainWindow" where
  "loadFile e fn s close_all w =
     (if fn \<noteq> []
      then (let (ret, error, w3) = loadFile_open e fn s close_all w;
                w4 = (if ret
                      then showMessage (''DBC File '' @ fn @ '' loaded'') (updateRecentFiles e fn w3)
                      else emit_effect
                             (WarningBox ''Failed to load DBC file''
                                (''Failed to parse DBC file '' @ fn) error) w3)
            in updateLoadSaveMenus e w4)
      else w)"

definition loadDBCFromOpendbc :: "env \<Rightarrow> string \<Rightarrow> MainWindow \<Rightarrow> MainWindow" where
  "loadDBCFromOpendbc e name w =
     (let w1 = remindSaveChanges e w;
          opendbc_file_path = OPENDBC_FILE_PATH e @ ''/'' @ name @ ''.dbc'';
          w2 = dbc_closeAll e w1;
          (ret, error, w3) = dbc_open e (FromFile (SOURCE_ALL e) opendbc_file_path) w2
      in updateLoadSaveMenus e w3)"

definition loadDBCFromClipboard :: "env \<Rightarrow> MainWindow \<Rightarrow> MainWindow" where
  "loadDBCFromClipboard e w =
     (let w1 = remindSaveChanges e w;
          dbc_str = clipboard_text e;
          w2 = dbc_closeAll e w1;
          (ret, error, w3) = dbc_open e (FromText (SOURCE_ALL e) [] dbc_str) w2
      in if ret \<and> 0 < msgCount e (dbc_files w3)
         then emit_effect (InformationBox ''Load From Clipboard'' ''DBC Successfully Loaded!'') w3
         else emit_effect
                (WarningBox ''Failed to load DBC from clipboard''
                   ''Make sure that you paste the text with correct format.'' error) w3)"

text \<open>The title of the video dock, as \<open>loadDBCFromFingerprint\<close> sets it.\<close>

definition show_fingerprint :: "env \<Rightarrow> MainWindow \<Rightarrow> MainWindow" where
  "show_fingerprint e w =
     w\<lparr>video_dock_title :=
         (if liveStreaming e then RouteName (routeName e)
          else RouteAndFingerprint (routeName e)
                 (if carFingerprint e = [] then ''Unknown Car'' else carFingerprint e))\<rparr>"

definition loadDBCFromFingerprint :: "env \<Rightarrow> MainWindow \<Rightarrow> MainWindow" where
  "loadDBCFromFingerprint e w =
     (if msgCount e (dbc_files w) \<noteq> 0 then w
      else (let w1 = remindSaveChanges e w;
                fingerprint = carFingerprint e;
                w2 = show_fingerprint e w1
            in if fingerprint \<noteq> []
               then (let dbc_name = fingerprint_to_dbc w2 fingerprint
                     in if dbc_name \<noteq> None
                        then loadDBCFromOpendbc e (toString dbc_name) w2
                        else newFile e w2)
               else newFile e w2))"

datatype error = AssertionFailed

definition openFileForSource :: "env \<Rightarrow> bus_action option \<Rightarrow> MainWindow \<Rightarrow> error + MainWindow" where
  "openFileForSource e sender w =
     (case sender of
        None \<Rightarrow> Inr w
      | Some action \<Rightarrow>
          (let source = ba_data action
           in if \<not> source < 64 then Inl AssertionFailed
              else (let fn = getFileName e (asked w);
                        w1 = emit_effect (OpenFileDialog (last_dir w)) (w\<lparr>asked := asked w + 1\<rparr>)
                    in if fn \<noteq> []
                       then Inr (loadFile e fn {source, source + 128, source + 192} False w1)
                       else Inr w1)))"

subsection \<open>Closing the window, opening a route\<close>

fun cleanupAutoSaveFile_files :: "env \<Rightarrow> dbc_files_t \<Rightarrow> dbc_files_t \<times> effect list" where
  "cleanupAutoSaveFile_files e [] = ([], [])"
| "cleanupAutoSaveFile_files e ((s, f) # rest) =
     (let (rest', fx) = cleanupAutoSaveFile_files e rest
      in ((s, file_call e CleanupAutoSaveFile f) # rest', FileCall CleanupAutoSaveFile f # fx))"

definition cleanupAutoSaveFile :: "env \<Rightarrow> MainWindow \<Rightarrow> MainWindow" where
  "cleanupAutoSaveFile e w =
     (let (fs, fx) = cleanupAutoSaveFile_files e (dbc_files w)
      in w\<lparr>dbc_files := fs, trace := trace w @ fx\<rparr>)"

text \<open>
  \<open>closeEvent\<close> stores the window's geometry in the settings and saves them; the
  geometry is the toolkit's and is left out. \<open>close()\<close> delivers the close event to the
  handler, which accepts it, and the window is closed.
\<close>

definition closeEvent :: "env \<Rightarrow> MainWindow \<Rightarrow> MainWindow" where
  "closeEvent e w =
     (let w1 = cleanupAutoSaveFile e w;
          w2 = remindSaveChanges e w1
      in emit_effect SettingsSave w2)"

definition close_window :: "env \<Rightarrow> MainWindow \<Rightarrow> MainWindow" where
  "close_window e w = (closeEvent e w)\<lparr>window_open := False\<rparr>"

definition openRoute :: "env \<Rightarrow> MainWindow \<Rightarrow> MainWindow" where
  "openRoute e w =
     (let (accepted, failedToLoad) = route_dialog e (asked w);
          w1 = emit_effect RouteDialog (w\<lparr>asked := asked w + 1\<rparr>)
      in if accepted
         then showMessage (''Route '' @ routeName e @ '' loaded'')
                (emit_effect ChartsRemoveAll (emit_effect CenterClear w1))
         else if failedToLoad then close_window e w1
         else w1)"

subsection \<open>Reading the trace\<close>

text \<open>
  The calls on the DBC manager, the reminder's question, and the effects of saving and
  of the undo stack's slots (status messages, calls on DBC file objects, the dialog that
  asks for a file name to save to).
\<close>

fun is_mgr_call :: "effect \<Rightarrow> bool" where
  "is_mgr_call DbcCloseAll = True"
| "is_mgr_call (DbcOpen a) = True"
| "is_mgr_call x = False"

fun is_question :: "effect \<Rightarrow> bool" where
  "is_question (QuestionBox title text) = True"
| "is_question x = False"


fun is_report :: "effect \<Rightarrow> bool" where
  "is_report (InformationBox title text) = True"
| "is_report (WarningBox title text detail) = True"
| "is_report x = False"

fun housekeeping :: "effect \<Rightarrow> bool" where
  "housekeeping (StatusMessage m) = True"
| "housekeeping (SaveFileDialog d) = True"
| "housekeeping (FileCall m f) = True"
| "housekeeping x = False"

text \<open>The fields that saving, the reminder and the undo stack's slots never write.\<close>

definition frame :: "MainWindow \<Rightarrow> (string \<Rightarrow> json option) \<times> bus_action list \<times> SourceSet \<times> bool" where
  "frame w = (fingerprint_to_dbc w, open_dbc_for_source w, sources w, window_open w)"

text \<open>The fields that the calls on the DBC manager, with the slot they may run, never write.\<close>

definition settings_part :: "MainWindow \<Rightarrow> string list \<times> string \<times> (string \<Rightarrow> json option) \<times> bool" where
  "settings_part w = (recent_files w, last_dir w, fingerprint_to_dbc w, window_open w)"

subsection \<open>A concrete environment and window\<close>

text \<open>
  An environment and a window to run the handlers on: three recent files at most, the
  autosave extension \<open>.tmp\<close>, a DBC manager that cannot parse the file \<open>bad.dbc\<close> and
  the text \<open>junk\<close>, finds no file \<open>opendbc/toyota_missing.dbc\<close>, and emits its signal
  when it closes all files and when it has opened one, a user who answers every question
  with Ok, and a window with two open files, one of them without a name, and an undo stack
  with unsaved commands.
\<close>

definition demo_open :: "open_args \<Rightarrow> dbc_files_t \<Rightarrow> bool \<times> string \<times> dbc_files_t" where
  "demo_open a fs =
     (case a of
        FromFile s p \<Rightarrow>
          if p = ''bad.dbc'' then (False, ''parse error'', fs)
          else if p = ''opendbc/toyota_missing.dbc'' then (False, ''Failed to open file.'', fs)
          else (True, [], fs @ [(s, \<lparr>filename = p, contents = ''BO_ 1 MSG: 8 XXX''\<rparr>)])
      | FromText s n c \<Rightarrow>
          if c = ''junk'' then (False, ''parse error'', fs)
          else (True, [], fs @ [(s, \<lparr>filename = n, contents = c\<rparr>)]))"

definition demo_env :: env where
  "demo_env =
     \<lparr>MAX_RECENT_FILES = 3,
      AUTO_SAVE_EXTENSION = ''.tmp'',
      OPENDBC_FILE_PATH = ''opendbc'',
      SOURCE_ALL = {},
      absolutePath = (\<lambda>p. ''/data''),
      fileName = (\<lambda>p. p),
      cleanPath = (\<lambda>p. p),
      file_exists = (\<lambda>p. p = ''a.dbc.tmp''),
      mgr_open = demo_open,
      mgr_closeAll = (\<lambda>fs. []),
      mgr_open_emits = (\<lambda>a fs. fst (demo_open a fs)),
      mgr_closeAll_emits = (\<lambda>fs. True),
      msgCount = (\<lambda>fs. int (length (filter (\<lambda>p. contents (snd p) \<noteq> []) fs))),
      dbcCount = (\<lambda>fs. int (length fs)),
      findDBCFile = (\<lambda>fs source. find (\<lambda>p. source \<in> fst p) fs),
      file_call = (\<lambda>m f. case m of SaveAs p \<Rightarrow> f\<lparr>filename := p\<rparr> | _ \<Rightarrow> f),
      dbc_name = filename,
      question = (\<lambda>n. Ok),
      getFileName = (\<lambda>n. ''new.dbc''),
      route_dialog = (\<lambda>n. (False, True)),
      clipboard_text = [],
      carFingerprint = ''TOYOTA COROLLA'',
      liveStreaming = False,
      routeName = ''route''\<rparr>"

definition demo_window :: MainWindow where
  "demo_window =
     \<lparr>recent_files = [''b.dbc'', ''a.dbc'', ''c.dbc''],
      last_dir = ''/home'',
      recent_files_acts = replicate 3 \<lparr>ra_text = [], ra_data = [], ra_visible = False\<rparr>,
      open_recent_enabled = False,
      undo_stack = \<lparr>us_commands = [''add signal'', ''edit signal''], us_index = 1, us_clean_index = 0\<rparr>,
      prev_undostack_index = 2,
      prev_undostack_count = 2,
      window_modified = True,
      dbc_files = [({0}, \<lparr>filename = ''a.dbc'', contents = ''BO_ 1 MSG: 8 XXX''\<rparr>),
                   ({1}, \<lparr>filename = [], contents = []\<rparr>)],
      sources = {0, 1, 64, 128},
      save_dbc_text = ''Save DBC...'',
      save_dbc_as_enabled = False,
      copy_dbc_enabled = False,
      open_dbc_for_source_enabled = False,
      open_dbc_for_source = [],
      progress_visible = False,
      progress_args = None,
      video_dock_title = RouteName ''route'',
      fingerprint_to_dbc = [''TOYOTA COROLLA'' \<mapsto> JString ''toyota_nodsu_pt_generated''],
      window_open = True,
      asked = 0,
      trace = []\<rparr>"

text \<open>
  The same window after a save, with no command on the undo stack; and a window that has
  loaded nothing yet (one new file with no name and no content), whose table names a DBC
  that the opendbc directory does not hold.
\<close>

definition demo_saved :: MainWindow where
  "demo_saved = demo_window\<lparr>undo_stack := \<lparr>us_commands = [], us_index = 0, us_clean_index = 0\<rparr>\<rparr>"

definition demo_unloaded :: MainWindow where
  "demo_unloaded =
     demo_saved\<lparr>dbc_files := [({}, \<lparr>filename = [], contents = []\<rparr>)],
                fingerprint_to_dbc := [''TOYOTA COROLLA'' \<mapsto> JString ''toyota_missing'']\<rparr>"

section \<open>What each handler adds to the trace\<close>

lemma trace_emit_effect [simp]: "trace (emit_effect x w) = trace w @ [x]"
  by (simp add: emit_effect_def)

lemma trace_showMessage [simp]: "trace (showMessage m w) = trace w @ [StatusMessage m]"
  by (simp add: showMessage_def)

lemma trace_updateRecentFiles [simp]: "trace (updateRecentFiles e fn w) = trace w"
  by (simp add: updateRecentFiles_def updateRecentFileActions_def Let_def)

lemma trace_undoStackCleanChanged [simp]: "trace (undoStackCleanChanged c w) = trace w"
  by (simp add: undoStackCleanChanged_def Let_def)

lemma trace_undo_setClean [simp]: "trace (undo_setClean w) = trace w"
  by (simp add: undo_setClean_def Let_def)

lemma trace_undo_resetClean [simp]: "trace (undo_resetClean w) = trace w"
  by (simp add: undo_resetClean_def Let_def)

lemma trace_updateLoadSaveMenus [simp]: "trace (updateLoadSaveMenus e w) = trace w"
  by (simp add: updateLoadSaveMenus_def Let_def)

lemma autoSave_files_trace:
  "snd (autoSave_files e fs) =
     map (\<lambda>p. FileCall AutoSave (snd p)) (filter (\<lambda>p. filename (snd p) \<noteq> []) fs)"
  by (induction fs) (auto simp: Let_def split: prod.split)

lemma filter_trace_autoSave:
  assumes "\<And>x. housekeeping x \<Longrightarrow> \<not> P x"
  shows "filter P (trace (autoSave e w)) = filter P (trace w)"
proof -
  have "filter P (snd (autoSave_files e (dbc_files w))) = []"
    using assms by (simp add: autoSave_files_trace filter_empty_conv)
  then show ?thesis
    by (simp add: autoSave_def case_prod_beta)
qed

lemma filter_trace_undoStackIndexChanged:
  assumes "\<And>x. housekeeping x \<Longrightarrow> \<not> P x"
  shows "filter P (trace (undoStackIndexChanged e i w)) = filter P (trace w)"
proof -
  have "\<not> P (StatusMessage m)" for m using assms by simp
  then show ?thesis
    by (simp add: undoStackIndexChanged_def Let_def filter_trace_autoSave [OF assms])
qed

lemma filter_trace_undo_clear:
  assumes "\<And>x. housekeeping x \<Longrightarrow> \<not> P x"
  shows "filter P (trace (undo_clear e w)) = filter P (trace w)"
  by (simp add: undo_clear_def Let_def filter_trace_undoStackIndexChanged [OF assms])

lemma filter_trace_saveFile_files:
  assumes "\<And>x. housekeeping x \<Longrightarrow> \<not> P x"
  shows "filter P (trace (snd (saveFile_files e fs w))) = filter P (trace w)"
proof (induction fs arbitrary: w)
  case Nil
  then show ?case by simp
next
  case (Cons p fs)
  obtain s f where p: "p = (s, f)" by (cases p)
  have a: "\<not> P (FileCall m g)" for m g using assms by simp
  have b: "\<not> P (SaveFileDialog d)" for d using assms by simp
  show ?case
    by (simp add: p Let_def case_prod_beta Cons.IH a b)
qed

lemma filter_trace_saveFile:
  assumes "\<And>x. housekeeping x \<Longrightarrow> \<not> P x"
  shows "filter P (trace (saveFile e w)) = filter P (trace w)"
proof -
  have "\<not> P (StatusMessage m)" for m using assms by simp
  then show ?thesis
    by (simp add: saveFile_def Let_def case_prod_beta filter_trace_saveFile_files [OF assms])
qed

lemma remindSaveChanges_loop_once:
  "remindSaveChanges_loop e False w =
     (if isClean (undo_stack w) then w
      else if question e (asked w) = Ok then save e (unsaved_prompt w)
      else unsaved_prompt w)"
proof -
  have done_clean: "remindSaveChanges_loop e False (save e v) = save e v" for v
    by (subst remindSaveChanges_loop.simps) simp
  have done_discard: "remindSaveChanges_loop e True v = v" for v
    by (subst remindSaveChanges_loop.simps) simp
  show ?thesis
    by (subst remindSaveChanges_loop.simps) (simp add: Let_def done_clean done_discard)
qed

lemma filter_trace_remindSaveChanges:
  assumes "\<And>x. housekeeping x \<Longrightarrow> \<not> P x" and "\<And>x. is_question x \<Longrightarrow> \<not> P x"
  shows "filter P (trace (remindSaveChanges e w)) = filter P (trace w)"
proof -
  have q: "\<not> P (QuestionBox t m)" for t m using assms(2) by simp
  have "filter P (trace (remindSaveChanges_loop e False w)) = filter P (trace w)"
    by (simp add: remindSaveChanges_loop_once save_def unsaved_prompt_def q
          filter_trace_saveFile [OF assms(1)])
  then show ?thesis
    by (simp add: remindSaveChanges_def filter_trace_undo_clear [OF assms(1)])
qed

text \<open>What saving, the reminder and the undo stack's slots leave alone.\<close>

lemma frame_emit_effect [simp]: "frame (emit_effect x w) = frame w"
  by (simp add: frame_def emit_effect_def)

lemma frame_showMessage [simp]: "frame (showMessage m w) = frame w"
  by (simp add: showMessage_def)

lemma frame_updateRecentFiles [simp]: "frame (updateRecentFiles e fn w) = frame w"
  by (simp add: frame_def updateRecentFiles_def updateRecentFileActions_def Let_def)

lemma frame_undoStackCleanChanged [simp]: "frame (undoStackCleanChanged c w) = frame w"
  by (simp add: frame_def undoStackCleanChanged_def Let_def)

lemma frame_autoSave [simp]: "frame (autoSave e w) = frame w"
  by (simp add: frame_def autoSave_def case_prod_beta)

lemma frame_undoStackIndexChanged [simp]: "frame (undoStackIndexChanged e i w) = frame w"
proof -
  have "frame (v\<lparr>prev_undostack_index := a, prev_undostack_count := b\<rparr>) = frame v" for v a b
    by (simp add: frame_def)
  then show ?thesis by (simp add: undoStackIndexChanged_def Let_def)
qed

lemma frame_undo_stack_update [simp]: "frame (w\<lparr>undo_stack := u\<rparr>) = frame w"
  by (simp add: frame_def)

lemma frame_undo_setClean [simp]: "frame (undo_setClean w) = frame w"
  by (simp add: undo_setClean_def Let_def)

lemma frame_undo_resetClean [simp]: "frame (undo_resetClean w) = frame w"
  by (simp add: undo_resetClean_def Let_def)

lemma frame_undo_clear [simp]: "frame (undo_clear e w) = frame w"
  by (simp add: undo_clear_def Let_def)

lemma frame_saveFile_files [simp]: "frame (snd (saveFile_files e fs w)) = frame w"
proof (induction fs arbitrary: w)
  case Nil
  then show ?case by simp
next
  case (Cons p fs)
  obtain s f where p: "p = (s, f)" by (cases p)
  have a: "frame (v\<lparr>asked := n\<rparr>) = frame v" for v n by (simp add: frame_def)
  show ?case by (simp add: p Let_def case_prod_beta Cons.IH a)
qed

lemma frame_saveFile [simp]: "frame (saveFile e w) = frame w"
proof -
  have a: "frame (v\<lparr>dbc_files := n\<rparr>) = frame v" for v n by (simp add: frame_def)
  show ?thesis by (simp add: saveFile_def Let_def case_prod_beta a)
qed

lemma frame_remindSaveChanges [simp]: "frame (remindSaveChanges e w) = frame w"
proof -
  have a: "frame (v\<lparr>asked := n\<rparr>) = frame v" for v n by (simp add: frame_def)
  show ?thesis
    by (simp add: remindSaveChanges_def remindSaveChanges_loop_once save_def unsaved_prompt_def a)
qed

lemma undo_stack_emit_effect [simp]: "undo_stack (emit_effect x w) = undo_stack w"
  by (simp add: emit_effect_def)

lemma undo_stack_autoSave [simp]: "undo_stack (autoSave e w) = undo_stack w"
  by (simp add: autoSave_def case_prod_beta)

lemma undo_stack_undoStackIndexChanged [simp]:
  "undo_stack (undoStackIndexChanged e i w) = undo_stack w"
  by (simp add: undoStackIndexChanged_def showMessage_def Let_def)

lemma us_commands_undo_clear: "us_commands (undo_stack (undo_clear e w)) = []"
  by (simp add: undo_clear_def Let_def)

lemma mgr_not_housekeeping: "housekeeping x \<Longrightarrow> \<not> is_mgr_call x"
  by (cases x) simp_all

lemma mgr_not_question: "is_question x \<Longrightarrow> \<not> is_mgr_call x"
  by (cases x) simp_all

lemma question_not_housekeeping: "housekeeping x \<Longrightarrow> \<not> is_question x"
  by (cases x) simp_all

text \<open>The trace of \<open>loadFile\<close>, and the manager calls of the other loaders.\<close>

lemma trace_loadFile_choose:
  "trace (snd (loadFile_choose e fn w)) =
     trace w @ FileExistsQuery (fn @ AUTO_SAVE_EXTENSION e)
       # (if file_exists e (fn @ AUTO_SAVE_EXTENSION e)
          then [QuestionBox ''Auto saved DBC found''
                  ''Auto saved DBC file from previous session found. Do you want to load it instead?'']
          else [])"
  by (simp add: loadFile_choose_def Let_def emit_effect_def)


lemma undo_clear_no_commands: "us_commands (undo_stack w) = [] \<Longrightarrow> undo_clear e w = w"
  by (simp add: undo_clear_def)

lemma DBCFileChanged_no_commands:
  "us_commands (undo_stack w) = [] \<Longrightarrow> DBCFileChanged e w = updateLoadSaveMenus e w"
  by (simp add: DBCFileChanged_def undo_clear_no_commands)

lemma dbc_files_undo_clear [simp]: "dbc_files (undo_clear e w) = dbc_files w"
  by (simp add: undo_clear_def undoStackIndexChanged_def autoSave_def isClean_def showMessage_def
        emit_effect_def undoStackCleanChanged_def Let_def)

lemma dbc_files_updateLoadSaveMenus [simp]: "dbc_files (updateLoadSaveMenus e w) = dbc_files w"
  by (simp add: updateLoadSaveMenus_def Let_def)

lemma undo_stack_updateLoadSaveMenus [simp]: "undo_stack (updateLoadSaveMenus e w) = undo_stack w"
  by (simp add: updateLoadSaveMenus_def Let_def)

lemma dbc_files_DBCFileChanged [simp]: "dbc_files (DBCFileChanged e w) = dbc_files w"
  by (simp add: DBCFileChanged_def)

lemma dbc_files_dbc_closeAll [simp]: "dbc_files (dbc_closeAll e w) = mgr_closeAll e (dbc_files w)"
  by (simp add: dbc_closeAll_def Let_def emit_effect_def)

lemma dbc_open_result:
  "fst (dbc_open e a w) = fst (mgr_open e a (dbc_files w))"
  "fst (snd (dbc_open e a w)) = fst (snd (mgr_open e a (dbc_files w)))"
  "dbc_files (snd (snd (dbc_open e a w))) = snd (snd (mgr_open e a (dbc_files w)))"
  by (simp_all add: dbc_open_def Let_def case_prod_beta emit_effect_def)

lemma filter_trace_DBCFileChanged:
  assumes "\<And>x. housekeeping x \<Longrightarrow> \<not> P x"
  shows "filter P (trace (DBCFileChanged e w)) = filter P (trace w)"
  by (simp add: DBCFileChanged_def filter_trace_undo_clear [OF assms])

lemma filter_trace_dbc_closeAll:
  assumes "\<And>x. housekeeping x \<Longrightarrow> \<not> P x"
  shows "filter P (trace (dbc_closeAll e w)) = filter P (trace w) @ filter P [DbcCloseAll]"
  by (simp add: dbc_closeAll_def Let_def filter_trace_DBCFileChanged [OF assms])

lemma filter_trace_dbc_open:
  assumes "\<And>x. housekeeping x \<Longrightarrow> \<not> P x"
  shows "filter P (trace (snd (snd (dbc_open e a w)))) = filter P (trace w) @ filter P [DbcOpen a]"
  by (simp add: dbc_open_def Let_def case_prod_beta filter_trace_DBCFileChanged [OF assms])

lemma undo_stack_dbc_closeAll:
  "us_commands (undo_stack w) = [] \<Longrightarrow> undo_stack (dbc_closeAll e w) = undo_stack w"
  by (simp add: dbc_closeAll_def Let_def DBCFileChanged_no_commands)


lemma trace_dbc_closeAll:
  "us_commands (undo_stack w) = [] \<Longrightarrow> trace (dbc_closeAll e w) = trace w @ [DbcCloseAll]"
  by (simp add: dbc_closeAll_def Let_def DBCFileChanged_no_commands)

lemma trace_dbc_open:
  "us_commands (undo_stack w) = [] \<Longrightarrow> trace (snd (snd (dbc_open e a w))) = trace w @ [DbcOpen a]"
  by (simp add: dbc_open_def Let_def case_prod_beta DBCFileChanged_no_commands)

lemma us_commands_remindSaveChanges [simp]:
  "us_commands (undo_stack (remindSaveChanges e w)) = []"
  by (simp add: remindSaveChanges_def us_commands_undo_clear)

text \<open>What the calls on the manager, with the slot they may run, leave alone.\<close>

lemma settings_part_emit_effect [simp]: "settings_part (emit_effect x w) = settings_part w"
  by (simp add: settings_part_def emit_effect_def)

lemma settings_part_undo_clear [simp]: "settings_part (undo_clear e w) = settings_part w"
  by (simp add: settings_part_def undo_clear_def undoStackIndexChanged_def autoSave_def showMessage_def
        emit_effect_def undoStackCleanChanged_def Let_def case_prod_beta)

lemma settings_part_updateLoadSaveMenus [simp]:
  "settings_part (updateLoadSaveMenus e w) = settings_part w"
  by (simp add: settings_part_def updateLoadSaveMenus_def Let_def)

lemma settings_part_DBCFileChanged [simp]: "settings_part (DBCFileChanged e w) = settings_part w"
  by (simp add: DBCFileChanged_def)

lemma settings_part_dbc_closeAll [simp]: "settings_part (dbc_closeAll e w) = settings_part w"
proof -
  have "settings_part (v\<lparr>dbc_files := fs\<rparr>) = settings_part v" for v fs
    by (simp add: settings_part_def)
  then show ?thesis by (simp add: dbc_closeAll_def Let_def)
qed

lemma settings_part_dbc_open [simp]: "settings_part (snd (snd (dbc_open e a w))) = settings_part w"
proof -
  have "settings_part (v\<lparr>dbc_files := fs\<rparr>) = settings_part v" for v fs
    by (simp add: settings_part_def)
  then show ?thesis by (simp add: dbc_open_def Let_def case_prod_beta)
qed

lemma settings_part_loadFile_choose [simp]:
  "settings_part (snd (loadFile_choose e fn w)) = settings_part w"
  by (simp add: settings_part_def loadFile_choose_def Let_def emit_effect_def undo_resetClean_def
        undoStackCleanChanged_def)

lemma settings_part_loadFile_open [simp]:
  "settings_part (snd (snd (loadFile_open e fn s close_all w))) = settings_part w"
  by (simp add: loadFile_open_def Let_def case_prod_beta)

text \<open>\<open>loadFile\<close> up to the return of \<open>dbc()->open\<close>, and after it.\<close>

lemma filter_trace_loadFile_open:
  assumes "\<And>x. housekeeping x \<Longrightarrow> \<not> P x"
  shows "filter P (trace (snd (snd (loadFile_open e fn s close_all w)))) =
           filter P (trace (snd (loadFile_choose e fn w)))
           @ (if close_all then filter P [DbcCloseAll] else [])
           @ filter P [DbcOpen (FromFile s (fst (loadFile_choose e fn w)))]"
  by (simp add: loadFile_open_def Let_def case_prod_beta filter_trace_dbc_open [OF assms]
        filter_trace_dbc_closeAll [OF assms])

lemma loadFile_failed:
  assumes "fn \<noteq> []" and "loadFile_open e fn s close_all w = (False, err, w3)"
  shows "loadFile e fn s close_all w =
           updateLoadSaveMenus e
             (emit_effect (WarningBox ''Failed to load DBC file''
                             (''Failed to parse DBC file '' @ fn) err) w3)"
  using assms by (simp add: loadFile_def)

lemma loadFile_loaded:
  assumes "fn \<noteq> []" and "loadFile_open e fn s close_all w = (True, err, w3)"
  shows "loadFile e fn s close_all w =
           updateLoadSaveMenus e
             (showMessage (''DBC File '' @ fn @ '' loaded'') (updateRecentFiles e fn w3))"
  using assms by (simp add: loadFile_def)



lemma filter_mgr_remindSaveChanges [simp]:
  "filter is_mgr_call (trace (remindSaveChanges e w)) = filter is_mgr_call (trace w)"
  by (rule filter_trace_remindSaveChanges [OF mgr_not_housekeeping mgr_not_question])

lemma fingerprint_to_dbc_remindSaveChanges [simp]:
  "fingerprint_to_dbc (remindSaveChanges e w) = fingerprint_to_dbc w"
  using frame_remindSaveChanges [of e w] by (simp add: frame_def)

lemma report_not_housekeeping: "housekeeping x \<Longrightarrow> \<not> is_report x"
  by (cases x) simp_all

lemma report_not_question: "is_question x \<Longrightarrow> \<not> is_report x"
  by (cases x) simp_all




lemma question_not_report: "is_report x \<Longrightarrow> \<not> is_question x"
  by (cases x) simp_all

lemma dbc_files_loadFile_choose [simp]: "dbc_files (snd (loadFile_choose e fn w)) = dbc_files w"
  by (simp add: loadFile_choose_def Let_def emit_effect_def undo_resetClean_def
        undoStackCleanChanged_def)

lemma loadFile_open_result:
  "fst (loadFile_open e fn s close_all w) =
     fst (mgr_open e (FromFile s (fst (loadFile_choose e fn w)))
            (if close_all then mgr_closeAll e (dbc_files w) else dbc_files w))"
  "fst (snd (loadFile_open e fn s close_all w)) =
     fst (snd (mgr_open e (FromFile s (fst (loadFile_choose e fn w)))
            (if close_all then mgr_closeAll e (dbc_files w) else dbc_files w)))"
  "dbc_files (snd (snd (loadFile_open e fn s close_all w))) =
     snd (snd (mgr_open e (FromFile s (fst (loadFile_choose e fn w)))
            (if close_all then mgr_closeAll e (dbc_files w) else dbc_files w)))"
  by (simp_all add: loadFile_open_def Let_def case_prod_beta dbc_open_result)



lemma undo_stack_cleanupAutoSaveFile [simp]:
  "undo_stack (cleanupAutoSaveFile e w) = undo_stack w"
  by (simp add: cleanupAutoSaveFile_def case_prod_beta)


text \<open>The two loaders that \<open>loadDBCFromFingerprint\<close> ends with.\<close>

lemma show_fingerprint_fields [simp]:
  "trace (show_fingerprint e w) = trace w"
  "dbc_files (show_fingerprint e w) = dbc_files w"
  "fingerprint_to_dbc (show_fingerprint e w) = fingerprint_to_dbc w"
  by (simp_all add: show_fingerprint_def)

lemma dbc_files_loadDBCFromOpendbc:
  "dbc_files (loadDBCFromOpendbc e name w) =
     snd (snd (mgr_open e (FromFile (SOURCE_ALL e) (OPENDBC_FILE_PATH e @ ''/'' @ name @ ''.dbc''))
                 (mgr_closeAll e (dbc_files (remindSaveChanges e w)))))"
  by (simp add: loadDBCFromOpendbc_def Let_def case_prod_beta dbc_open_result)

lemma dbc_files_newFile:
  "dbc_files (newFile e w) =
     snd (snd (mgr_open e (FromText (SOURCE_ALL e) [] [])
                 (mgr_closeAll e (dbc_files (remindSaveChanges e w)))))"
  by (simp add: newFile_def Let_def case_prod_beta dbc_open_result)

lemma filter_trace_loadDBCFromOpendbc:
  assumes "\<And>x. housekeeping x \<Longrightarrow> \<not> P x" and "\<And>x. is_question x \<Longrightarrow> \<not> P x"
  shows "filter P (trace (loadDBCFromOpendbc e name w)) =
     filter P (trace w)
     @ filter P [DbcCloseAll,
                 DbcOpen (FromFile (SOURCE_ALL e) (OPENDBC_FILE_PATH e @ ''/'' @ name @ ''.dbc''))]"
  by (simp add: loadDBCFromOpendbc_def Let_def case_prod_beta filter_trace_dbc_open [OF assms(1)]
        filter_trace_dbc_closeAll [OF assms(1)] filter_trace_remindSaveChanges [OF assms])

lemma filter_trace_newFile:
  assumes "\<And>x. housekeeping x \<Longrightarrow> \<not> P x" and "\<And>x. is_question x \<Longrightarrow> \<not> P x"
  shows "filter P (trace (newFile e w)) =
     filter P (trace w) @ filter P [DbcCloseAll, DbcOpen (FromText (SOURCE_ALL e) [] [])]"
  by (simp add: newFile_def Let_def case_prod_beta filter_trace_dbc_open [OF assms(1)]
        filter_trace_dbc_closeAll [OF assms(1)] filter_trace_remindSaveChanges [OF assms])

text \<open>The reminder and the menus on the concrete window.\<close>

lemma demo_remind:
  "trace (remindSaveChanges demo_env demo_window) =
     [QuestionBox ''Unsaved Changes''
        ''You have unsaved changes. Press ok to save them, cancel to discard.'',
      FileCall Save \<lparr>filename = ''a.dbc'', contents = ''BO_ 1 MSG: 8 XXX''\<rparr>,
      SaveFileDialog ''/data/untitled.dbc'',
      FileCall (SaveAs ''new.dbc'') \<lparr>filename = [], contents = []\<rparr>,
      StatusMessage ''File saved'', StatusMessage ''Redo '']"
  by code_simp

lemma demo_menu:
  "open_dbc_for_source (updateLoadSaveMenus demo_env demo_window) =
     [\<lparr>ba_text = ''Bus 0 (current: a.dbc)'', ba_data = 0\<rparr>,
      \<lparr>ba_text = ''Bus 1 (current: untitled)'', ba_data = 1\<rparr>]"
  by code_simp

text \<open>A refused file and an accepted autosaved copy on the concrete window.\<close>

lemma demo_failed_open:
  "fst (loadFile_open demo_env ''bad.dbc'' {} True demo_window) = False"
  "fst (snd (loadFile_open demo_env ''bad.dbc'' {} True demo_window)) = ''parse error''"
  "trace (snd (snd (loadFile_open demo_env ''bad.dbc'' {} True demo_window))) =
     [FileExistsQuery ''bad.dbc.tmp'', DbcCloseAll, StatusMessage [],
      DbcOpen (FromFile {} ''bad.dbc'')]"
  by code_simp+


section \<open>Properties\<close>

subsection \<open>Recent files\<close>

lemma trim_recent_take: "trim_recent m xs = take m xs"
proof (induction m xs rule: trim_recent.induct)
  case (1 m xs)
  show ?case
  proof (cases "m < length xs")
    case True
    then have "trim_recent m xs = trim_recent m (butlast xs)"
      by (subst trim_recent.simps) simp
    also have "\<dots> = take m (butlast xs)" using "1" True by simp
    also have "\<dots> = take m xs" using True by (simp add: take_butlast)
    finally show ?thesis .
  next
    case False
    then show ?thesis by (subst trim_recent.simps) simp
  qed
qed

lemma recent_files_updateRecentFiles:
  "recent_files (updateRecentFiles e fn w) =
     take (MAX_RECENT_FILES e) (fn # removeAll fn (recent_files w))"
  by (simp add: updateRecentFiles_def updateRecentFileActions_def Let_def trim_recent_take)

lemma last_dir_updateRecentFiles:
  "last_dir (updateRecentFiles e fn w) = absolutePath e fn"
  by (simp add: updateRecentFiles_def updateRecentFileActions_def Let_def)

text \<open>
  Claim C2. After \<open>updateRecentFiles(fn)\<close> the list of recent files starts with \<open>fn\<close>,
  holds \<open>fn\<close> nowhere else, has at most \<open>MAX_RECENT_FILES\<close> elements, and
  \<open>settings.last_dir\<close> is the absolute path of \<open>fn\<close>; the elements after \<open>fn\<close> are
  the previous list without \<open>fn\<close>, in its order, cut to the room that is left.
  \<open>MAX_RECENT_FILES\<close> is the size of the array of actions, a positive number.
\<close>

theorem updateRecentFiles_invariant:
  assumes "0 < MAX_RECENT_FILES e"
  shows "recent_files (updateRecentFiles e fn w) \<noteq> []
       \<and> hd (recent_files (updateRecentFiles e fn w)) = fn
       \<and> fn \<notin> set (tl (recent_files (updateRecentFiles e fn w)))
       \<and> length (recent_files (updateRecentFiles e fn w)) \<le> MAX_RECENT_FILES e
       \<and> last_dir (updateRecentFiles e fn w) = absolutePath e fn
       \<and> tl (recent_files (updateRecentFiles e fn w))
           = take (MAX_RECENT_FILES e - 1) (removeAll fn (recent_files w))"
proof -
  obtain k where k: "MAX_RECENT_FILES e = Suc k"
    using assms by (cases "MAX_RECENT_FILES e") auto
  have r: "recent_files (updateRecentFiles e fn w) = fn # take k (removeAll fn (recent_files w))"
    by (simp add: recent_files_updateRecentFiles k)
  have "fn \<notin> set (take k (removeAll fn (recent_files w)))"
    using set_take_subset [of k "removeAll fn (recent_files w)"] by auto
  then show ?thesis
    by (simp add: r k last_dir_updateRecentFiles)
qed

theorem updateRecentFiles_invariant_witness:
  "0 < MAX_RECENT_FILES demo_env
   \<and> recent_files (updateRecentFiles demo_env ''a.dbc'' demo_window) = [''a.dbc'', ''b.dbc'', ''c.dbc'']
   \<and> recent_files (updateRecentFiles demo_env ''d.dbc'' demo_window) = [''d.dbc'', ''b.dbc'', ''a.dbc'']
   \<and> last_dir (updateRecentFiles demo_env ''a.dbc'' demo_window) = ''/data''"
proof -
  have h: "0 < MAX_RECENT_FILES demo_env" by (simp add: demo_env_def)
  show ?thesis
    using updateRecentFiles_invariant [OF h, of "''a.dbc''" demo_window]
          updateRecentFiles_invariant [OF h, of "''d.dbc''" demo_window]
    by (simp add: recent_files_updateRecentFiles last_dir_updateRecentFiles
          demo_env_def demo_window_def)
qed

subsection \<open>Autosave and the clean state\<close>

text \<open>
  Claim C5. \<open>autoSave\<close> changes nothing when the undo stack is clean. When it is not,
  it calls \<open>autoSave()\<close> on the open files whose \<open>filename\<close> is not empty, on each of
  them once and on no other file. \<open>undoStackCleanChanged(clean)\<close> sets the
  window-modified flag to \<open>!clean\<close>, and with \<open>clean\<close> it sets the stored previous
  index and count to zero.
\<close>

theorem autoSave_clean_bookkeeping:
  "(isClean (undo_stack w) \<longrightarrow> autoSave e w = w)
   \<and> (\<not> isClean (undo_stack w) \<longrightarrow>
        trace (autoSave e w) =
          trace w @ map (\<lambda>p. FileCall AutoSave (snd p))
                      (filter (\<lambda>p. filename (snd p) \<noteq> []) (dbc_files w)))
   \<and> window_modified (undoStackCleanChanged clean w) = (\<not> clean)
   \<and> (clean \<longrightarrow> prev_undostack_index (undoStackCleanChanged clean w) = 0
               \<and> prev_undostack_count (undoStackCleanChanged clean w) = 0)"
  by (simp add: autoSave_def undoStackCleanChanged_def Let_def case_prod_beta autoSave_files_trace)

theorem autoSave_clean_bookkeeping_witness:
  "\<not> isClean (undo_stack demo_window)
   \<and> trace (autoSave demo_env demo_window)
       = [FileCall AutoSave \<lparr>filename = ''a.dbc'', contents = ''BO_ 1 MSG: 8 XXX''\<rparr>]
   \<and> isClean (undo_stack (undo_setClean demo_window))
   \<and> autoSave demo_env (undo_setClean demo_window) = undo_setClean demo_window
   \<and> \<not> window_modified (undoStackCleanChanged True demo_window)
   \<and> prev_undostack_index (undoStackCleanChanged True demo_window) = 0
   \<and> prev_undostack_count (undoStackCleanChanged True demo_window) = 0"
  using autoSave_clean_bookkeeping [of demo_window demo_env True]
        autoSave_clean_bookkeeping [of "undo_setClean demo_window" demo_env True]
  by (simp add: demo_window_def isClean_def undo_setClean_def undoStackCleanChanged_def Let_def)

subsection \<open>The text of an undo or redo\<close>



subsection \<open>Download progress\<close>

text \<open>
  Claim C7. After \<open>updateDownloadProgress(cur, total, success)\<close> the progress bar is
  visible if and only if \<open>success\<close> holds and \<open>cur\<close> is less than \<open>total\<close>; in every
  other case it is hidden.
\<close>

theorem updateDownloadProgress_visible:
  "progress_visible (updateDownloadProgress cur total' success w) = (success \<and> cur < total')"
  by (simp add: updateDownloadProgress_def)

theorem updateDownloadProgress_visible_witness:
  "progress_visible (updateDownloadProgress 5 10 True demo_window)
   \<and> \<not> progress_visible (updateDownloadProgress 10 10 True demo_window)
   \<and> \<not> progress_visible (updateDownloadProgress 5 10 False demo_window)"
  using updateDownloadProgress_visible [of 5 10 True demo_window]
        updateDownloadProgress_visible [of 10 10 True demo_window]
        updateDownloadProgress_visible [of 5 10 False demo_window]
  by simp

subsection \<open>The reminder to save\<close>

text \<open>
  Claim C8. \<open>remindSaveChanges\<close> always returns (its loop is a total function, by the
  termination proof above), and the loop makes at most one round: nothing when the stack
  is clean; otherwise one question, and then either one \<open>save()\<close>, after which the stack
  is clean because \<open>saveFile\<close> always ends with \<open>setClean()\<close>, or \<open>discard_changes\<close>.
  So at most one question is asked, and on return the undo stack holds no command.
\<close>

theorem remindSaveChanges_one_round:
  "remindSaveChanges_loop e False w =
     (if isClean (undo_stack w) then w
      else if question e (asked w) = Ok then save e (unsaved_prompt w)
      else unsaved_prompt w)
   \<and> isClean (undo_stack (saveFile e w))
   \<and> length (filter is_question (trace (remindSaveChanges e w)))
       \<le> length (filter is_question (trace w)) + 1
   \<and> us_commands (undo_stack (remindSaveChanges e w)) = []"
proof -
  have "filter is_question (trace (remindSaveChanges e w))
          = filter is_question (trace (remindSaveChanges_loop e False w))"
    by (simp add: remindSaveChanges_def filter_trace_undo_clear [OF question_not_housekeeping])
  also have "length \<dots> \<le> length (filter is_question (trace w)) + 1"
    by (simp add: remindSaveChanges_loop_once save_def unsaved_prompt_def
          filter_trace_saveFile [OF question_not_housekeeping])
  finally have n: "length (filter is_question (trace (remindSaveChanges e w)))
       \<le> length (filter is_question (trace w)) + 1" .
  show ?thesis
    using n by (simp add: remindSaveChanges_loop_once remindSaveChanges_def us_commands_undo_clear)
qed

theorem remindSaveChanges_one_round_witness:
  "\<not> isClean (undo_stack demo_window)
   \<and> remindSaveChanges_loop demo_env False demo_window = save demo_env (unsaved_prompt demo_window)
   \<and> length (filter is_question (trace (remindSaveChanges demo_env demo_window))) = 1
   \<and> us_commands (undo_stack (remindSaveChanges demo_env demo_window)) = []"
proof -
  have a: "\<not> isClean (undo_stack demo_window)" by (simp add: demo_window_def isClean_def)
  have b: "question demo_env (asked demo_window) = Ok" by (simp add: demo_env_def)
  show ?thesis
    using remindSaveChanges_one_round [of demo_env demo_window] a b
    by (simp add: demo_remind)
qed

subsection \<open>The assertion of openFileForSource\<close>

text \<open>
  Claim C10. The actions \<open>updateLoadSaveMenus\<close> puts into the menu of buses are those of
  the sources below 64, in ascending order, each with its source as data. So every action
  of that menu carries a source below 64, and \<open>openFileForSource\<close>, triggered by it in
  any state of the window, does not fail its assertion.
\<close>

theorem openFileForSource_assert_holds:
  "map ba_data (open_dbc_for_source (updateLoadSaveMenus e w))
     = filter (\<lambda>source. source < 64) (sorted_list_of_set (sources w))
   \<and> (\<forall>a \<in> set (open_dbc_for_source (updateLoadSaveMenus e w)).
        ba_data a < 64 \<and> ba_data a \<in> sources w
        \<and> openFileForSource e (Some a) w' \<noteq> Inl AssertionFailed)"
proof -
  have m: "map ba_data (open_dbc_for_source (updateLoadSaveMenus e w))
     = filter (\<lambda>source. source < 64) (sorted_list_of_set (sources w))"
    by (simp add: updateLoadSaveMenus_def Let_def bus_action_for_def comp_def not_le)
  have "ba_data a < 64 \<and> ba_data a \<in> sources w
        \<and> openFileForSource e (Some a) w' \<noteq> Inl AssertionFailed"
    if "a \<in> set (open_dbc_for_source (updateLoadSaveMenus e w))" for a
  proof -
    from that have "ba_data a \<in> set (map ba_data (open_dbc_for_source (updateLoadSaveMenus e w)))"
      by simp
    then have d: "ba_data a < 64 \<and> ba_data a \<in> sources w"
      unfolding m by simp
    then show ?thesis
      by (simp add: openFileForSource_def Let_def)
  qed
  with m show ?thesis by blast
qed

theorem openFileForSource_assert_holds_witness:
  "open_dbc_for_source (updateLoadSaveMenus demo_env demo_window) =
     [\<lparr>ba_text = ''Bus 0 (current: a.dbc)'', ba_data = 0\<rparr>,
      \<lparr>ba_text = ''Bus 1 (current: untitled)'', ba_data = 1\<rparr>]
   \<and> openFileForSource demo_env (Some \<lparr>ba_text = ''Bus 1 (current: untitled)'', ba_data = 1\<rparr>)
         demo_window
       \<noteq> Inl AssertionFailed
   \<and> openFileForSource demo_env (Some \<lparr>ba_text = ''Bus 64'', ba_data = 64\<rparr>) demo_window
       = Inl AssertionFailed"
proof -
  have "openFileForSource demo_env (Some \<lparr>ba_text = ''Bus 64'', ba_data = 64\<rparr>) demo_window
       = Inl AssertionFailed"
    by (simp add: openFileForSource_def)
  then show ?thesis
    using openFileForSource_assert_holds [of demo_env demo_window demo_window]
    by (simp add: demo_menu)
qed

subsection \<open>Failures of loading\<close>

text \<open>
  Claim C1, as stated, says that a failure to load is answered by a message and nothing
  more, in \<open>openRoute\<close> as in \<open>loadFile\<close>. It does not hold for \<open>openRoute\<close>: when the
  route dialog is rejected and reports \<open>failedToLoad()\<close>, \<open>openRoute\<close> shows no message
  and closes the main window, which runs the close handler. On the concrete window the
  window is open before and closed after, and the trace holds the clean-up of the autosave
  files, the reminder to save, a save and the saving of the settings.
\<close>

theorem openRoute_failure_counterexample:
  "route_dialog demo_env (asked demo_window) = (False, True)
   \<and> window_open demo_window
   \<and> \<not> window_open (openRoute demo_env demo_window)
   \<and> trace (openRoute demo_env demo_window) =
       [RouteDialog,
        FileCall CleanupAutoSaveFile \<lparr>filename = ''a.dbc'', contents = ''BO_ 1 MSG: 8 XXX''\<rparr>,
        FileCall CleanupAutoSaveFile \<lparr>filename = [], contents = []\<rparr>,
        QuestionBox ''Unsaved Changes''
          ''You have unsaved changes. Press ok to save them, cancel to discard.'',
        FileCall Save \<lparr>filename = ''a.dbc'', contents = ''BO_ 1 MSG: 8 XXX''\<rparr>,
        SaveFileDialog ''/data/untitled.dbc'',
        FileCall (SaveAs ''new.dbc'') \<lparr>filename = [], contents = []\<rparr>,
        StatusMessage ''File saved'', StatusMessage ''Redo '', SettingsSave]"
  by code_simp

text \<open>
  Claim C1, amended. When \<open>dbc()->open\<close> fails in \<open>loadFile\<close>, what \<open>loadFile\<close> does
  after the call is to show one warning box whose detailed text is the error and to refresh
  the load and save menus, and nothing else: the window on return is the window as the
  failed call left it, with the box shown and the menus refreshed. \<open>open\<close> is called once,
  the warning is the only report, and the recent files, the last directory and the window's
  being open are as they were before \<open>loadFile\<close>. What was done before the call is not
  undone: the open files are those the manager holds after the failed call (files closed by
  \<open>close_all\<close> stay closed), and the undo stack and the window-modified flag are as the
  call left them. When the route dialog is rejected and reports \<open>failedToLoad()\<close>,
  \<open>openRoute\<close> closes the main window.
\<close>

theorem load_failure_handling:
  "(fn \<noteq> [] \<and> loadFile_open e fn s close_all w = (False, err, w3)
     \<longrightarrow> loadFile e fn s close_all w =
           updateLoadSaveMenus e
             (emit_effect (WarningBox ''Failed to load DBC file''
                             (''Failed to parse DBC file '' @ fn) err) w3)
         \<and> trace (loadFile e fn s close_all w) =
             trace w3 @ [WarningBox ''Failed to load DBC file'' (''Failed to parse DBC file '' @ fn) err]
         \<and> filter is_report (trace (loadFile e fn s close_all w)) =
             filter is_report (trace w)
             @ [WarningBox ''Failed to load DBC file'' (''Failed to parse DBC file '' @ fn) err]
         \<and> filter is_mgr_call (trace (loadFile e fn s close_all w)) =
             filter is_mgr_call (trace w) @ (if close_all then [DbcCloseAll] else [])
             @ [DbcOpen (FromFile s (fst (loadFile_choose e fn w)))]
         \<and> dbc_files (loadFile e fn s close_all w) =
             snd (snd (mgr_open e (FromFile s (fst (loadFile_choose e fn w)))
                        (if close_all then mgr_closeAll e (dbc_files w) else dbc_files w)))
         \<and> undo_stack (loadFile e fn s close_all w) = undo_stack w3
         \<and> window_modified (loadFile e fn s close_all w) = window_modified w3
         \<and> recent_files (loadFile e fn s close_all w) = recent_files w
         \<and> last_dir (loadFile e fn s close_all w) = last_dir w
         \<and> window_open (loadFile e fn s close_all w) = window_open w)
   \<and> (route_dialog e (asked w) = (False, True)
     \<longrightarrow> openRoute e w = close_window e (emit_effect RouteDialog (w\<lparr>asked := asked w + 1\<rparr>))
         \<and> \<not> window_open (openRoute e w))"
proof -
  have r: "openRoute e w = close_window e (emit_effect RouteDialog (w\<lparr>asked := asked w + 1\<rparr>))
         \<and> \<not> window_open (openRoute e w)"
    if "route_dialog e (asked w) = (False, True)"
    using that by (simp add: openRoute_def close_window_def)
  have l: "loadFile e fn s close_all w =
           updateLoadSaveMenus e
             (emit_effect (WarningBox ''Failed to load DBC file''
                             (''Failed to parse DBC file '' @ fn) err) w3)
         \<and> trace (loadFile e fn s close_all w) =
             trace w3 @ [WarningBox ''Failed to load DBC file'' (''Failed to parse DBC file '' @ fn) err]
         \<and> filter is_report (trace (loadFile e fn s close_all w)) =
             filter is_report (trace w)
             @ [WarningBox ''Failed to load DBC file'' (''Failed to parse DBC file '' @ fn) err]
         \<and> filter is_mgr_call (trace (loadFile e fn s close_all w)) =
             filter is_mgr_call (trace w) @ (if close_all then [DbcCloseAll] else [])
             @ [DbcOpen (FromFile s (fst (loadFile_choose e fn w)))]
         \<and> dbc_files (loadFile e fn s close_all w) =
             snd (snd (mgr_open e (FromFile s (fst (loadFile_choose e fn w)))
                        (if close_all then mgr_closeAll e (dbc_files w) else dbc_files w)))
         \<and> undo_stack (loadFile e fn s close_all w) = undo_stack w3
         \<and> window_modified (loadFile e fn s close_all w) = window_modified w3
         \<and> recent_files (loadFile e fn s close_all w) = recent_files w
         \<and> last_dir (loadFile e fn s close_all w) = last_dir w
         \<and> window_open (loadFile e fn s close_all w) = window_open w"
    if fn: "fn \<noteq> []" and o: "loadFile_open e fn s close_all w = (False, err, w3)"
  proof -
    have eq: "loadFile e fn s close_all w =
           updateLoadSaveMenus e
             (emit_effect (WarningBox ''Failed to load DBC file''
                             (''Failed to parse DBC file '' @ fn) err) w3)"
      by (rule loadFile_failed [OF fn o])
    have w3: "w3 = snd (snd (loadFile_open e fn s close_all w))" using o by simp
    have rep: "filter is_report (trace w3) = filter is_report (trace w)"
      unfolding w3
      by (simp add: filter_trace_loadFile_open [OF report_not_housekeeping] trace_loadFile_choose)
    have mg: "filter is_mgr_call (trace w3) =
             filter is_mgr_call (trace w) @ (if close_all then [DbcCloseAll] else [])
             @ [DbcOpen (FromFile s (fst (loadFile_choose e fn w)))]"
      unfolding w3
      by (simp add: filter_trace_loadFile_open [OF mgr_not_housekeeping] trace_loadFile_choose)
    have fs: "dbc_files w3 =
             snd (snd (mgr_open e (FromFile s (fst (loadFile_choose e fn w)))
                        (if close_all then mgr_closeAll e (dbc_files w) else dbc_files w)))"
      unfolding w3 by (rule loadFile_open_result(3))
    have sp: "settings_part w3 = settings_part w"
      unfolding w3 by simp
    have st: "recent_files w3 = recent_files w \<and> last_dir w3 = last_dir w
               \<and> window_open w3 = window_open w"
      using sp by (simp add: settings_part_def)
    show ?thesis
      unfolding eq using rep mg fs st
      by (simp add: updateLoadSaveMenus_def emit_effect_def Let_def)
  qed
  show ?thesis using r l by blast
qed

theorem load_failure_handling_witness:
  "loadFile_open demo_env ''bad.dbc'' {} True demo_window =
     (False, ''parse error'', snd (snd (loadFile_open demo_env ''bad.dbc'' {} True demo_window)))
   \<and> route_dialog demo_env (asked demo_window) = (False, True)
   \<and> trace (loadFile demo_env ''bad.dbc'' {} True demo_window) =
       [FileExistsQuery ''bad.dbc.tmp'', DbcCloseAll, StatusMessage [],
        DbcOpen (FromFile {} ''bad.dbc''),
        WarningBox ''Failed to load DBC file'' ''Failed to parse DBC file bad.dbc'' ''parse error'']
   \<and> recent_files (loadFile demo_env ''bad.dbc'' {} True demo_window) = recent_files demo_window
   \<and> last_dir (loadFile demo_env ''bad.dbc'' {} True demo_window) = last_dir demo_window
   \<and> \<not> window_open (openRoute demo_env demo_window)"
proof -
  let ?w3 = "snd (snd (loadFile_open demo_env ''bad.dbc'' {} True demo_window))"
  have h1: "loadFile_open demo_env ''bad.dbc'' {} True demo_window = (False, ''parse error'', ?w3)"
    using demo_failed_open(1,2) by (simp add: prod_eq_iff)
  have h2: "route_dialog demo_env (asked demo_window) = (False, True)"
    by (simp add: demo_env_def)
  have h0: "''bad.dbc'' \<noteq> []" by simp
  note T = load_failure_handling [where fn = "''bad.dbc''" and e = demo_env and s = "{}"
            and w = demo_window and close_all = True and err = "''parse error''" and ?w3.0 = ?w3]
  note B = T [THEN conjunct1, THEN mp, OF conjI [OF h0 h1], THEN conjunct2]
  note D = T [THEN conjunct2, THEN mp, OF h2, THEN conjunct2]
  show ?thesis
    using B D h1 h2 by (simp add: demo_failed_open(3))
qed

subsection \<open>Loading from the clipboard\<close>

text \<open>
  Claim C9. \<open>loadDBCFromClipboard\<close> closes all files, opens the clipboard's text, and
  shows one dialog: the success dialog if and only if the text was parsed and the manager
  then counts at least one message; otherwise the failure dialog, with the parser's error
  as its detail. A text that parses and defines no message gets the failure dialog.
\<close>

theorem loadDBCFromClipboard_report:
  "trace (loadDBCFromClipboard e w) =
     trace (remindSaveChanges e w)
     @ [DbcCloseAll,
        DbcOpen (FromText (SOURCE_ALL e) [] (clipboard_text e)),
        (case mgr_open e (FromText (SOURCE_ALL e) [] (clipboard_text e))
                (mgr_closeAll e (dbc_files (remindSaveChanges e w))) of
           (ret, error, fs) \<Rightarrow>
             if ret \<and> 0 < msgCount e fs
             then InformationBox ''Load From Clipboard'' ''DBC Successfully Loaded!''
             else WarningBox ''Failed to load DBC from clipboard''
                    ''Make sure that you paste the text with correct format.'' error)]"
proof -
  let ?a = "FromText (SOURCE_ALL e) [] (clipboard_text e)"
  let ?w1 = "remindSaveChanges e w"
  let ?w2 = "dbc_closeAll e ?w1"
  obtain ret err fs where
    m: "mgr_open e ?a (mgr_closeAll e (dbc_files ?w1)) = (ret, err, fs)"
    by (rule prod_cases3)
  obtain w3 where o: "dbc_open e ?a ?w2 = (ret, err, w3)"
    using dbc_open_result(1,2) [of e ?a ?w2] m by (cases "dbc_open e ?a ?w2") simp
  have c2: "us_commands (undo_stack ?w2) = []"
    by (simp add: undo_stack_dbc_closeAll)
  have t2: "trace ?w2 = trace ?w1 @ [DbcCloseAll]"
    by (simp add: trace_dbc_closeAll)
  have t3: "trace w3 = trace ?w2 @ [DbcOpen ?a]"
    using trace_dbc_open [OF c2, of e ?a] o by simp
  have f3: "dbc_files w3 = fs"
    using dbc_open_result(3) [of e ?a ?w2] o m by simp
  show ?thesis
    by (simp add: loadDBCFromClipboard_def Let_def o m t2 t3 f3)
qed

theorem loadDBCFromClipboard_report_witness:
  "trace (loadDBCFromClipboard demo_env demo_window) =
     trace (remindSaveChanges demo_env demo_window)
     @ [DbcCloseAll,
        DbcOpen (FromText {} [] []),
        WarningBox ''Failed to load DBC from clipboard''
          ''Make sure that you paste the text with correct format.'' []]
   \<and> mgr_open demo_env (FromText {} [] []) [] = (True, [], [({}, \<lparr>filename = [], contents = []\<rparr>)])
   \<and> msgCount demo_env [({}, \<lparr>filename = [], contents = []\<rparr>)] = 0"
proof -
  have a: "SOURCE_ALL demo_env = {}" "clipboard_text demo_env = []"
    "mgr_closeAll demo_env (dbc_files (remindSaveChanges demo_env demo_window)) = []"
    by (simp_all add: demo_env_def)
  have b: "mgr_open demo_env (FromText {} [] []) [] = (True, [], [({}, \<lparr>filename = [], contents = []\<rparr>)])"
    "msgCount demo_env [({}, \<lparr>filename = [], contents = []\<rparr>)] = 0"
    by (simp_all add: demo_env_def demo_open_def)
  show ?thesis
    using loadDBCFromClipboard_report [of demo_env demo_window]
    by (simp add: a b)
qed

subsection \<open>The autosaved copy\<close>



subsection \<open>The DBC of the car's fingerprint\<close>

text \<open>
  Claim C4, as stated, says that the opendbc file of a fingerprint that is a key of the
  table is loaded. \<open>loadDBCFromOpendbc\<close> drops the result of \<open>dbc()->open\<close>: when the
  manager refuses the file, nothing is loaded. On the concrete window whose table names a
  DBC that the opendbc directory does not hold, all files are closed, the open is refused,
  no file is open afterwards and no message is shown.
\<close>

theorem loadDBCFromFingerprint_refused_counterexample:
  "msgCount demo_env (dbc_files demo_unloaded) = 0
   \<and> fingerprint_to_dbc demo_unloaded (carFingerprint demo_env) = Some (JString ''toyota_missing'')
   \<and> fst (mgr_open demo_env (FromFile {} ''opendbc/toyota_missing.dbc'') []) = False
   \<and> dbc_files (loadDBCFromFingerprint demo_env demo_unloaded) = []
   \<and> trace (loadDBCFromFingerprint demo_env demo_unloaded) =
       [DbcCloseAll, DbcOpen (FromFile {} ''opendbc/toyota_missing.dbc'')]"
  by code_simp

text \<open>
  Claim C4, amended. \<open>loadDBCFromFingerprint\<close> does nothing when the manager counts a
  message. Otherwise, when the car's fingerprint is not empty and is a key of the table, the
  manager is asked to close all files and to open the opendbc file named by the table's
  value for it; in every other case it is asked to close all files and to open a new file
  with no name and no content. It is asked nothing else and no report is shown. The files
  open on return are those the manager holds after that call of \<open>open\<close>, whether it
  succeeded or not.
\<close>

theorem loadDBCFromFingerprint_lookup:
  "(msgCount e (dbc_files w) \<noteq> 0 \<longrightarrow> loadDBCFromFingerprint e w = w)
   \<and> (msgCount e (dbc_files w) = 0 \<and> carFingerprint e \<noteq> []
        \<and> fingerprint_to_dbc w (carFingerprint e) = Some v
      \<longrightarrow> dbc_files (loadDBCFromFingerprint e w) =
            snd (snd (mgr_open e
                        (FromFile (SOURCE_ALL e)
                           (OPENDBC_FILE_PATH e @ ''/'' @ toString (Some v) @ ''.dbc''))
                        (mgr_closeAll e
                           (dbc_files (remindSaveChanges e
                              (show_fingerprint e (remindSaveChanges e w)))))))
          \<and> filter is_mgr_call (trace (loadDBCFromFingerprint e w)) =
              filter is_mgr_call (trace w)
              @ [DbcCloseAll,
                 DbcOpen (FromFile (SOURCE_ALL e)
                            (OPENDBC_FILE_PATH e @ ''/'' @ toString (Some v) @ ''.dbc''))]
          \<and> filter is_report (trace (loadDBCFromFingerprint e w)) = filter is_report (trace w))
   \<and> (msgCount e (dbc_files w) = 0
        \<and> (carFingerprint e = [] \<or> fingerprint_to_dbc w (carFingerprint e) = None)
      \<longrightarrow> dbc_files (loadDBCFromFingerprint e w) =
            snd (snd (mgr_open e (FromText (SOURCE_ALL e) [] [])
                        (mgr_closeAll e
                           (dbc_files (remindSaveChanges e
                              (show_fingerprint e (remindSaveChanges e w)))))))
          \<and> filter is_mgr_call (trace (loadDBCFromFingerprint e w)) =
              filter is_mgr_call (trace w) @ [DbcCloseAll, DbcOpen (FromText (SOURCE_ALL e) [] [])]
          \<and> filter is_report (trace (loadDBCFromFingerprint e w)) = filter is_report (trace w))"
proof -
  have r: "filter is_report (trace (remindSaveChanges e v)) = filter is_report (trace v)" for v
    by (rule filter_trace_remindSaveChanges [OF report_not_housekeeping report_not_question])
  note o = filter_trace_loadDBCFromOpendbc [OF mgr_not_housekeeping mgr_not_question]
    filter_trace_loadDBCFromOpendbc [OF report_not_housekeeping report_not_question]
    filter_trace_newFile [OF mgr_not_housekeeping mgr_not_question]
    filter_trace_newFile [OF report_not_housekeeping report_not_question]
  show ?thesis
    by (auto simp: loadDBCFromFingerprint_def Let_def dbc_files_loadDBCFromOpendbc dbc_files_newFile
          o r)
qed

theorem loadDBCFromFingerprint_lookup_witness:
  "msgCount demo_env (dbc_files demo_window) \<noteq> 0
   \<and> loadDBCFromFingerprint demo_env demo_window = demo_window
   \<and> msgCount demo_env (dbc_files (demo_window\<lparr>dbc_files := []\<rparr>)) = 0
   \<and> fingerprint_to_dbc (demo_window\<lparr>dbc_files := []\<rparr>) (carFingerprint demo_env)
       = Some (JString ''toyota_nodsu_pt_generated'')
   \<and> dbc_files (loadDBCFromFingerprint demo_env (demo_window\<lparr>dbc_files := []\<rparr>))
       = [({}, \<lparr>filename = ''opendbc/toyota_nodsu_pt_generated.dbc'', contents = ''BO_ 1 MSG: 8 XXX''\<rparr>)]
   \<and> filter is_mgr_call (trace (loadDBCFromFingerprint demo_env (demo_window\<lparr>dbc_files := []\<rparr>)))
       = [DbcCloseAll, DbcOpen (FromFile {} ''opendbc/toyota_nodsu_pt_generated.dbc'')]
   \<and> carFingerprint (demo_env\<lparr>carFingerprint := []\<rparr>) = []
   \<and> dbc_files (loadDBCFromFingerprint (demo_env\<lparr>carFingerprint := []\<rparr>) (demo_window\<lparr>dbc_files := []\<rparr>))
       = [({}, \<lparr>filename = [], contents = []\<rparr>)]
   \<and> filter is_mgr_call
        (trace (loadDBCFromFingerprint (demo_env\<lparr>carFingerprint := []\<rparr>) (demo_window\<lparr>dbc_files := []\<rparr>)))
       = [DbcCloseAll, DbcOpen (FromText {} [] [])]"
proof -
  have a: "msgCount demo_env (dbc_files demo_window) \<noteq> 0"
    by (simp add: demo_env_def demo_window_def)
  have b: "msgCount demo_env [] = 0" "msgCount (demo_env\<lparr>carFingerprint := []\<rparr>) [] = 0"
    "carFingerprint demo_env \<noteq> []"
    "SOURCE_ALL demo_env = {}" "OPENDBC_FILE_PATH demo_env = ''opendbc''"
    "mgr_closeAll demo_env = (\<lambda>fs. [])" "mgr_open demo_env = demo_open"
    by (simp_all add: demo_env_def)
  have c: "fingerprint_to_dbc demo_window (carFingerprint demo_env)
       = Some (JString ''toyota_nodsu_pt_generated'')"
    by (simp add: demo_env_def demo_window_def)
  have d: "demo_open (FromFile {} ''opendbc/toyota_nodsu_pt_generated.dbc'') []
             = (True, [], [({}, \<lparr>filename = ''opendbc/toyota_nodsu_pt_generated.dbc'',
                                  contents = ''BO_ 1 MSG: 8 XXX''\<rparr>)])"
    "demo_open (FromText {} [] []) [] = (True, [], [({}, \<lparr>filename = [], contents = []\<rparr>)])"
    by (simp_all add: demo_open_def)
  have t: "trace demo_window = []" by (simp add: demo_window_def)
  show ?thesis
    using loadDBCFromFingerprint_lookup [of demo_env demo_window "JString ''toyota_nodsu_pt_generated''"]
          loadDBCFromFingerprint_lookup [of demo_env "demo_window\<lparr>dbc_files := []\<rparr>"
            "JString ''toyota_nodsu_pt_generated''"]
          loadDBCFromFingerprint_lookup [of "demo_env\<lparr>carFingerprint := []\<rparr>"
            "demo_window\<lparr>dbc_files := []\<rparr>" "JString ''toyota_nodsu_pt_generated''"]
    by (simp add: a b c d t toString_def)
qed

end
